theory Spec2Isabelle
  imports Main "HOL-Library.AList" "HOL-Library.Sublist"
begin

section \<open>The Task entity of taipy (src/taipy/task/task.py)\<close>

text \<open>
  A Python instance is its attribute dictionary (\<open>vars(self)\<close>); a Python \<open>dict\<close> is an
  association list with pairwise distinct keys that keeps insertion order.  Exceptions are
  values of the type \<open>error\<close>, returned on the left of a sum.  The collaborators that the
  module imports and that are not part of it are parameters of the operations:
  \<^item> \<open>protect_name\<close> (taipy.common), the name sanitizer, a function on strings;
  \<^item> \<open>Scope\<close> (taipy.data), a totally ordered enumeration: any type of class \<open>linorder\<close>,
    with its member \<open>GLOBAL\<close> passed to \<open>Task_scope\<close>;
  \<^item> \<open>uuid4\<close>, the text of the token that \<open>uuid.uuid4()\<close> draws for one construction;
  \<^item> \<open>hash\<close>, the builtin hash of strings.
\<close>

subsection \<open>Python values\<close>

datatype error = AttributeError | RecursionError | TypeError | ValueError

text \<open>
  \<open>DataSource\<close> (taipy.data.data_source) is used through its attributes \<open>config_name\<close> and
  \<open>scope\<close> only; whatever else such an object holds is the extension part of the record.
\<close>

record 's DataSource =
  config_name :: string
  scope :: 's

type_synonym ('k, 'v) dict = "('k \<times> 'v) list"

datatype ('s, 'z, 'f) pyval =
    PyNone
  | PyStr string
  | PyDict "(string, ('s, 'z) DataSource_scheme) dict"
  | PyFun 'f

text \<open>\<open>d[k] = v\<close>: an existing key keeps its position, a new key goes to the end.\<close>

definition dict_setitem :: "('k, 'v) dict \<Rightarrow> 'k \<Rightarrow> 'v \<Rightarrow> ('k, 'v) dict" where
  "dict_setitem d k v = AList.update k v d"

text \<open>\<open>d.update(e)\<close>: \<open>d[k] = v\<close> for every item of \<open>e\<close>, in the order of \<open>e\<close>.\<close>

definition dict_update :: "('k, 'v) dict \<Rightarrow> ('k, 'v) dict \<Rightarrow> ('k, 'v) dict" where
  "dict_update d e = fold (\<lambda>kv acc. dict_setitem acc (fst kv) (snd kv)) e d"

definition dict_values :: "('k, 'v) dict \<Rightarrow> 'v list" where
  "dict_values d = map snd d"

definition dict_keys :: "('k, 'v) dict \<Rightarrow> 'k list" where
  "dict_keys d = map fst d"

text \<open>\<open>{ds.config_name: ds for ds in xs}\<close>\<close>

definition dict_by_config_name ::
  "('s, 'z) DataSource_scheme list \<Rightarrow> (string, ('s, 'z) DataSource_scheme) dict" where
  "dict_by_config_name xs = fold (\<lambda>ds acc. dict_setitem acc (config_name ds) ds) xs []"

text \<open>\<open>sep.join(parts)\<close>\<close>

fun join :: "string \<Rightarrow> string list \<Rightarrow> string" where
  "join sep [] = []"
| "join sep [x] = x"
| "join sep (x # y # ys) = x @ sep @ join sep (y # ys)"

text \<open>
  \<open>min(xs)\<close> on a sequence: the first element is the candidate; a later element replaces
  it when it is smaller.  The empty sequence raises \<open>ValueError\<close>.
\<close>

fun py_min :: "'a::linorder list \<Rightarrow> error + 'a" where
  "py_min [] = Inl ValueError"
| "py_min (x # xs) = Inr (fold (\<lambda>y m. if y < m then y else m) xs x)"

subsection \<open>The class\<close>

type_synonym ('s, 'z, 'f) Task = "(string, ('s, 'z, 'f) pyval) dict"

definition ID_PREFIX :: string where
  "ID_PREFIX = ''TASK''"

definition ID_SEPARATOR :: string where
  "ID_SEPARATOR = ''_''"

text \<open>The instance that \<open>object.__new__\<close> hands to \<open>__init__\<close> and to \<open>__setstate__\<close>.\<close>

definition blank :: "('s, 'z, 'f) Task" where
  "blank = []"

text \<open>
  \<open>__init__(self, config_name, input, function, output=None, id=None, parent_id=None)\<close>.
  \<open>id or ...\<close> takes the generated identifier when \<open>id\<close> is \<open>None\<close> and also when it is
  the empty string; \<open>output or []\<close> reads \<open>None\<close> as the empty list.
\<close>

definition Task_init ::
  "(string \<Rightarrow> string) \<Rightarrow> string \<Rightarrow> string \<Rightarrow> ('s, 'z) DataSource_scheme list \<Rightarrow> 'f \<Rightarrow>
   ('s, 'z) DataSource_scheme list option \<Rightarrow> string option \<Rightarrow> string option \<Rightarrow>
   ('s, 'z, 'f) Task" where
  "Task_init protect_name uuid4 cfg inp func outp tid parent_id =
    (let self0 = blank;
         name = protect_name cfg;
         self1 = dict_setitem self0 ''config_name'' (PyStr name);
         generated = join ID_SEPARATOR [ID_PREFIX, name, uuid4];
         self2 = dict_setitem self1 ''id''
           (PyStr (case tid of None \<Rightarrow> generated
                   | Some i \<Rightarrow> if i = [] then generated else i));
         self3 = dict_setitem self2 ''parent_id''
           (case parent_id of None \<Rightarrow> PyNone | Some p \<Rightarrow> PyStr p);
         self4 = dict_setitem self3 ''_Task__input'' (PyDict (dict_by_config_name inp));
         self5 = dict_setitem self4 ''_Task__output''
           (PyDict (dict_by_config_name (case outp of None \<Rightarrow> [] | Some xs \<Rightarrow> xs)))
     in dict_setitem self5 ''function'' (PyFun func))"

text \<open>
  Reading an attribute of \<open>self\<close> inside the class.  An instance has either no attribute
  at all (the blank instance) or the six attributes of the constructor, with values of
  the kinds the constructor stores: \<open>__init__\<close> and \<open>__setstate__\<close> with a snapshot of
  such an instance lead nowhere else.  On the blank instance every read goes to
  \<open>__getattr__\<close>, which reads \<open>self.input\<close>, whose attribute is missing as well: the
  interpreter ends that with \<open>RecursionError\<close>.  The model answers so for any missing
  attribute, and with \<open>TypeError\<close> for a value of another kind than the constructor
  stores.
\<close>

definition Task_id :: "('s, 'z, 'f) Task \<Rightarrow> error + string" where
  "Task_id self = (case map_of self ''id'' of
      None \<Rightarrow> Inl RecursionError
    | Some (PyStr i) \<Rightarrow> Inr i
    | Some _ \<Rightarrow> Inl TypeError)"

definition Task_config_name :: "('s, 'z, 'f) Task \<Rightarrow> error + string" where
  "Task_config_name self = (case map_of self ''config_name'' of
      None \<Rightarrow> Inl RecursionError
    | Some (PyStr n) \<Rightarrow> Inr n
    | Some _ \<Rightarrow> Inl TypeError)"

definition Task_output ::
  "('s, 'z, 'f) Task \<Rightarrow> error + (string, ('s, 'z) DataSource_scheme) dict" where
  "Task_output self = (case map_of self ''_Task__output'' of
      None \<Rightarrow> Inl RecursionError
    | Some (PyDict d) \<Rightarrow> Inr d
    | Some _ \<Rightarrow> Inl TypeError)"

definition Task_input ::
  "('s, 'z, 'f) Task \<Rightarrow> error + (string, ('s, 'z) DataSource_scheme) dict" where
  "Task_input self = (case map_of self ''_Task__input'' of
      None \<Rightarrow> Inl RecursionError
    | Some (PyDict d) \<Rightarrow> Inr d
    | Some _ \<Rightarrow> Inl TypeError)"

text \<open>\<open>__hash__\<close>: the hash of the identifier.\<close>

definition Task_hash :: "(string \<Rightarrow> int) \<Rightarrow> ('s, 'z, 'f) Task \<Rightarrow> error + int" where
  "Task_hash hash self = (case Task_id self of Inl e \<Rightarrow> Inl e | Inr i \<Rightarrow> Inr (hash i))"

text \<open>\<open>__getstate__\<close>: \<open>vars(self)\<close>, the attribute dictionary itself.\<close>

definition Task_getstate :: "('s, 'z, 'f) Task \<Rightarrow> (string, ('s, 'z, 'f) pyval) dict" where
  "Task_getstate self = self"

text \<open>\<open>__setstate__\<close>: \<open>vars(self).update(state)\<close>; the result is the instance afterwards.\<close>

definition Task_setstate ::
  "('s, 'z, 'f) Task \<Rightarrow> (string, ('s, 'z, 'f) pyval) dict \<Rightarrow> ('s, 'z, 'f) Task" where
  "Task_setstate self state = dict_update self state"

text \<open>
  \<open>__getattr__\<close>, with the log of \<open>logging.error\<close> passed through: the result and the log
  afterwards.
\<close>

definition Task_getattr ::
  "(string \<Rightarrow> string) \<Rightarrow> ('s, 'z, 'f) Task \<Rightarrow> string \<Rightarrow> string list \<Rightarrow>
   (error + ('s, 'z) DataSource_scheme) \<times> string list" where
  "Task_getattr protect_name self attribute_name log =
    (let protected_attribute_name = protect_name attribute_name in
     case Task_input self of
       Inl e \<Rightarrow> (Inl e, log)
     | Inr inp \<Rightarrow>
        (case map_of inp protected_attribute_name of
           Some ds \<Rightarrow> (Inr ds, log)
         | None \<Rightarrow>
            (case Task_output self of
               Inl e \<Rightarrow> (Inl e, log)
             | Inr outp \<Rightarrow>
                (case map_of outp protected_attribute_name of
                   Some ds \<Rightarrow> (Inr ds, log)
                 | None \<Rightarrow>
                    (case Task_id self of
                       Inl e \<Rightarrow> (Inl e, log)
                     | Inr i \<Rightarrow>
                        (Inl AttributeError,
                         log @ [attribute_name @ '' is not a data source of task '' @ i]))))))"

text \<open>The property \<open>scope\<close>.\<close>

definition Task_scope :: "'s::linorder \<Rightarrow> ('s, 'z, 'f) Task \<Rightarrow> error + 's" where
  "Task_scope GLOBAL self =
    (case Task_input self of
       Inl e \<Rightarrow> Inl e
     | Inr inp \<Rightarrow>
        (case Task_output self of
           Inl e \<Rightarrow> Inl e
         | Inr outp \<Rightarrow>
            (let data_sources = dict_values inp @ dict_values outp in
             if length data_sources \<noteq> 0 then py_min (map scope data_sources)
             else Inr GLOBAL)))"


subsection \<open>Attribute access\<close>





subsection \<open>Equality of instances\<close>

text \<open>
  The class defines \<open>__hash__\<close> and no \<open>__eq__\<close>, so \<open>a == b\<close> on two tasks is the
  comparison it inherits from \<open>object\<close>: it holds when \<open>a\<close> and \<open>b\<close> are one and the same
  object.  An instance is therefore its address together with its attribute dictionary.
\<close>

type_synonym ('s, 'z, 'f) Task_object = "nat \<times> ('s, 'z, 'f) Task"

definition Task_eq :: "('s, 'z, 'f) Task_object \<Rightarrow> ('s, 'z, 'f) Task_object \<Rightarrow> bool" where
  "Task_eq a b = (fst a = fst b)"

text \<open>
  The test by which a \<open>set\<close> or a \<open>dict\<close> takes \<open>b\<close> for the key \<open>a\<close> it already holds:
  equal hashes, and then \<open>a is b or a == b\<close>.
\<close>

definition same_key ::
  "(string \<Rightarrow> int) \<Rightarrow> ('s, 'z, 'f) Task_object \<Rightarrow> ('s, 'z, 'f) Task_object \<Rightarrow> error + bool" where
  "same_key hash a b =
    (case Task_hash hash (snd a) of
       Inl e \<Rightarrow> Inl e
     | Inr ha \<Rightarrow>
        (case Task_hash hash (snd b) of
           Inl e \<Rightarrow> Inl e
         | Inr hb \<Rightarrow> Inr (ha = hb \<and> (fst a = fst b \<or> Task_eq a b))))"

subsection \<open>The name sanitizer as documented\<close>

text \<open>
  Modelled from the spec: \<open>protect_name\<close> of taipy.common, the name sanitizer, which is
  not among the sources.  The rules are the ones the docstring of \<open>Task\<close> gives for
  \<open>config_name\<close>: lowercase alphanumeric characters, the dash and the underscore are the
  recommended characters and stay; of the other characters, a space is replaced by an
  underscore, a Unicode character (one outside ASCII) by the alphanumeric character that
  the unicode library gives for it, and any other character by a dash.  The library's
  table is the parameter \<open>unidecode\<close>; a Unicode character without an entry counts among
  the other characters.
\<close>

definition lowercase_alphanumeric :: "char \<Rightarrow> bool" where
  "lowercase_alphanumeric c = (c \<in> set ''abcdefghijklmnopqrstuvwxyz0123456789'')"

definition recommended :: "char \<Rightarrow> bool" where
  "recommended c = (lowercase_alphanumeric c \<or> c = CHR ''-'' \<or> c = CHR ''_'')"

definition unicode_character :: "char \<Rightarrow> bool" where
  "unicode_character c = (128 \<le> (of_char c :: nat))"

definition protect_char :: "(char, char) dict \<Rightarrow> char \<Rightarrow> char" where
  "protect_char unidecode c =
    (if recommended c then c
     else if c = CHR '' '' then CHR ''_''
     else if unicode_character c then
       (case map_of unidecode c of Some r \<Rightarrow> r | None \<Rightarrow> CHR ''-'')
     else CHR ''-'')"

definition documented_protect_name :: "(char, char) dict \<Rightarrow> string \<Rightarrow> string" where
  "documented_protect_name unidecode name = map (protect_char unidecode) name"

subsection \<open>Basic facts about dictionaries\<close>

lemma map_of_dict_setitem: "map_of (dict_setitem d k v) = (map_of d)(k \<mapsto> v)"
  by (simp add: dict_setitem_def update_conv')

lemma map_of_dict_update: "map_of (dict_update d e) = map_of d ++ map_of (rev e)"
  unfolding dict_update_def
  by (induction e arbitrary: d) (simp_all add: map_of_dict_setitem map_add_def fun_eq_iff split: option.splits)

lemma find_append:
  "find P (xs @ ys) = (case find P xs of Some v \<Rightarrow> Some v | None \<Rightarrow> find P ys)"
  by (induction xs) simp_all

lemma map_of_fold_config_name:
  "map_of (fold (\<lambda>ds acc. dict_setitem acc (config_name ds) ds) xs d) k =
    (case find (\<lambda>x. config_name x = k) (rev xs) of Some v \<Rightarrow> Some v | None \<Rightarrow> map_of d k)"
  by (induction xs arbitrary: d)
    (simp_all add: find_append map_of_dict_setitem split: option.splits)

lemma map_of_dict_by_config_name:
  "map_of (dict_by_config_name xs) k = find (\<lambda>x. config_name x = k) (rev xs)"
  by (simp add: dict_by_config_name_def map_of_fold_config_name split: option.splits)

lemma distinct_fold_config_name:
  "distinct (map fst d) \<Longrightarrow>
   distinct (map fst (fold (\<lambda>ds acc. dict_setitem acc (config_name ds) ds) xs d))"
  by (induction xs arbitrary: d) (simp_all add: dict_setitem_def distinct_update)

lemma distinct_dict_by_config_name: "distinct (dict_keys (dict_by_config_name xs))"
  by (simp add: dict_by_config_name_def dict_keys_def distinct_fold_config_name)

lemma filter_key_distinct:
  "distinct (map fst d) \<Longrightarrow>
   filter (\<lambda>e. fst e = k) d = (case map_of d k of None \<Rightarrow> [] | Some v \<Rightarrow> [(k, v)])"
proof (induction d)
  case Nil
  show ?case by simp
next
  case (Cons e d)
  show ?case
  proof (cases "fst e = k")
    case True
    with Cons.prems have "k \<notin> fst ` set d" by auto
    then have "\<forall>x\<in>set d. fst x \<noteq> k" by (auto simp: image_iff)
    then have "filter (\<lambda>e. fst e = k) d = []" by (simp add: filter_empty_conv)
    with True show ?thesis by (cases e) simp
  next
    case False
    with Cons show ?thesis by (cases e) auto
  qed
qed

lemma map_of_rev_distinct: "distinct (map fst xs) \<Longrightarrow> map_of (rev xs) = map_of xs"
proof (induction xs)
  case Nil
  show ?case by simp
next
  case (Cons x xs)
  then have "map_of xs (fst x) = None"
    by (simp add: map_of_eq_None_iff)
  with Cons show ?case
    by (cases x) (auto simp: fun_eq_iff map_add_def split: option.splits)
qed

lemma py_min_fold: "fold (\<lambda>y m. if y < m then y else m) xs (x::'a::linorder) = Min (insert x (set xs))"
proof -
  have "(\<lambda>y m. if y < m then y else m) = (min :: 'a \<Rightarrow> 'a \<Rightarrow> 'a)"
    by (auto simp: fun_eq_iff min_def)
  then show ?thesis
    using Min.set_eq_fold [of x xs] by simp
qed

lemma py_min_Min: "xs \<noteq> [] \<Longrightarrow> py_min xs = Inr (Min (set xs))"
  by (cases xs) (simp_all add: py_min_fold)

lemmas Task_init_defs = Task_init_def blank_def Let_def map_of_dict_setitem
  ID_PREFIX_def ID_SEPARATOR_def

subsection \<open>What the constructor stores\<close>

lemma Task_input_init:
  "Task_input (Task_init pn u cfg inp f outp tid pid) = Inr (dict_by_config_name inp)"
  by (simp add: Task_input_def Task_init_defs)

lemma Task_output_init:
  "Task_output (Task_init pn u cfg inp f outp tid pid) =
     Inr (dict_by_config_name (case outp of None \<Rightarrow> [] | Some xs \<Rightarrow> xs))"
  by (simp add: Task_output_def Task_init_defs)

lemma Task_config_name_init:
  "Task_config_name (Task_init pn u cfg inp f outp tid pid) = Inr (pn cfg)"
  by (simp add: Task_config_name_def Task_init_defs)

lemma Task_id_init:
  "Task_id (Task_init pn u cfg inp f outp tid pid) =
     Inr (case tid of None \<Rightarrow> ''TASK_'' @ pn cfg @ ''_'' @ u
          | Some i \<Rightarrow> if i = [] then ''TASK_'' @ pn cfg @ ''_'' @ u else i)"
  by (simp add: Task_id_def Task_init_defs split: option.splits)

lemma Task_init_explicit:
  "Task_init pn u cfg inp f outp tid pid =
    [(''config_name'', PyStr (pn cfg)),
     (''id'', PyStr (case tid of None \<Rightarrow> ''TASK_'' @ pn cfg @ ''_'' @ u
          | Some i \<Rightarrow> if i = [] then ''TASK_'' @ pn cfg @ ''_'' @ u else i)),
     (''parent_id'', case pid of None \<Rightarrow> PyNone | Some p \<Rightarrow> PyStr p),
     (''_Task__input'', PyDict (dict_by_config_name inp)),
     (''_Task__output'', PyDict (dict_by_config_name (case outp of None \<Rightarrow> [] | Some xs \<Rightarrow> xs))),
     (''function'', PyFun f)]"
  by (simp add: Task_init_def blank_def Let_def dict_setitem_def ID_PREFIX_def ID_SEPARATOR_def split: option.splits)

section \<open>The claims\<close>

subsection \<open>Scope derivation\<close>

text \<open>
  C3.  The property \<open>scope\<close> of a task returns \<open>GLOBAL\<close> when the task has no input
  and no output data source, and otherwise the minimum, in the order of the scopes, of the
  scopes of all data sources bound as inputs or outputs.
\<close>

theorem Task_scope_lowest:
  assumes "Task_input self = Inr inp" and "Task_output self = Inr outp"
  shows "Task_scope GLOBAL self =
    Inr (if inp = [] \<and> outp = [] then GLOBAL
         else Min (scope ` (set (dict_values inp) \<union> set (dict_values outp))))"
proof (cases "inp = [] \<and> outp = []")
  case True
  with assms show ?thesis
    by (simp add: Task_scope_def dict_values_def)
next
  case False
  then have ne: "map scope (dict_values inp @ dict_values outp) \<noteq> []"
    by (auto simp: dict_values_def)
  have "Task_scope GLOBAL self = py_min (map scope (dict_values inp @ dict_values outp))"
    using assms ne by (simp add: Task_scope_def Let_def)
  also have "\<dots> = Inr (Min (scope ` (set (dict_values inp) \<union> set (dict_values outp))))"
    using py_min_Min [OF ne] by (simp add: image_Un)
  finally show ?thesis
    by (simp only: if_not_P [OF False])
qed

text \<open>The theorem at a task with inputs of scopes 3 and 2 and an output of scope 1.\<close>

theorem Task_scope_lowest_witness:
  "Task_input (Task_init (documented_protect_name []) ''u'' ''t''
      [\<lparr>config_name = ''a'', scope = (3::nat)\<rparr>, \<lparr>config_name = ''b'', scope = 2\<rparr>] ()
      (Some [\<lparr>config_name = ''c'', scope = 1\<rparr>]) None None)
    = Inr [(''a'', \<lparr>config_name = ''a'', scope = 3\<rparr>), (''b'', \<lparr>config_name = ''b'', scope = 2\<rparr>)]
   \<and> Task_output (Task_init (documented_protect_name []) ''u'' ''t''
      [\<lparr>config_name = ''a'', scope = (3::nat)\<rparr>, \<lparr>config_name = ''b'', scope = 2\<rparr>] ()
      (Some [\<lparr>config_name = ''c'', scope = 1\<rparr>]) None None)
    = Inr [(''c'', \<lparr>config_name = ''c'', scope = 1\<rparr>)]
   \<and> Task_scope 4 (Task_init (documented_protect_name []) ''u'' ''t''
      [\<lparr>config_name = ''a'', scope = (3::nat)\<rparr>, \<lparr>config_name = ''b'', scope = 2\<rparr>] ()
      (Some [\<lparr>config_name = ''c'', scope = 1\<rparr>]) None None) = Inr 1"
proof -
  let ?t = "Task_init (documented_protect_name []) ''u'' ''t''
      [\<lparr>config_name = ''a'', scope = (3::nat)\<rparr>, \<lparr>config_name = ''b'', scope = 2\<rparr>] ()
      (Some [\<lparr>config_name = ''c'', scope = 1\<rparr>]) None None"
  have i: "Task_input ?t =
      Inr [(''a'', \<lparr>config_name = ''a'', scope = 3\<rparr>), (''b'', \<lparr>config_name = ''b'', scope = 2\<rparr>)]"
    by (simp add: Task_input_init dict_by_config_name_def dict_setitem_def)
  have out: "Task_output ?t = Inr [(''c'', \<lparr>config_name = ''c'', scope = 1\<rparr>)]"
    by (simp add: Task_output_init dict_by_config_name_def dict_setitem_def)
  from Task_scope_lowest [OF i out, of 4] have "Task_scope 4 ?t = Inr 1"
    by (simp add: dict_values_def)
  with i out show ?thesis by simp
qed

subsection \<open>Identifiers\<close>

lemma Task_id_init_explicit:
  "i \<noteq> [] \<Longrightarrow> Task_id (Task_init pn u cfg inp f outp (Some i) pid) = Inr i"
  by (simp add: Task_id_init)

text \<open>
  C2.  A task constructed with an explicit \<open>id\<close> equal to a string \<open>X\<close>, the empty
  string included, has exactly \<open>X\<close> as its \<open>id\<close>.  The constructor does so for every
  non-empty \<open>X\<close> (\<open>Task_id_init_explicit\<close>); at the empty string \<open>id or ...\<close> takes the
  generated identifier instead, which the theorem evaluates: the resulting \<open>id\<close> is
  \<open>TASK_\<close>, the sanitized name, \<open>_\<close> and the token, and not the empty string.
\<close>

theorem empty_id_is_replaced:
  "Task_id (Task_init protect_name uuid4 cfg inp f outp (Some []) parent_id) =
     Inr (''TASK_'' @ protect_name cfg @ ''_'' @ uuid4)
   \<and> Task_id (Task_init protect_name uuid4 cfg inp f outp (Some []) parent_id) \<noteq> Inr []"
  by (simp add: Task_id_init)




subsection \<open>The mappings of inputs and outputs\<close>

text \<open>
  C7.  When two input data sources \<open>a\<close> and \<open>b\<close>, in that order, have the same
  \<open>config_name\<close>, and no later input has it, the mapping of inputs holds exactly one
  entry under that name, and it is \<open>b\<close>: the later element overwrites the earlier one and
  the construction does not fail.  The same holds for the outputs.
\<close>

theorem last_write_wins:
  assumes "config_name a = config_name b"
    and "\<forall>x\<in>set post. config_name x \<noteq> config_name b"
  shows "(\<exists>d. Task_input (Task_init protect_name uuid4 cfg (pre @ a # mid @ b # post) f outp
            tid parent_id) = Inr d
          \<and> filter (\<lambda>e. fst e = config_name b) d = [(config_name b, b)])
    \<and> (\<exists>d. Task_output (Task_init protect_name uuid4 cfg inp f
            (Some (pre @ a # mid @ b # post)) tid parent_id) = Inr d
          \<and> filter (\<lambda>e. fst e = config_name b) d = [(config_name b, b)])"
proof -
  let ?xs = "pre @ a # mid @ b # post"
  from assms(2) have "find (\<lambda>x. config_name x = config_name b) (rev post) = None"
    by (simp add: find_None_iff)
  then have "map_of (dict_by_config_name ?xs) (config_name b) = Some b"
    by (simp add: map_of_dict_by_config_name find_append)
  moreover have "distinct (map fst (dict_by_config_name ?xs))"
    using distinct_dict_by_config_name [of ?xs] by (simp add: dict_keys_def)
  ultimately have "filter (\<lambda>e. fst e = config_name b) (dict_by_config_name ?xs)
      = [(config_name b, b)]"
    by (simp add: filter_key_distinct)
  then show ?thesis
    by (simp add: Task_input_init Task_output_init)
qed

text \<open>The theorem at the inputs \<open>[a, b]\<close>, both named \<open>x\<close>.\<close>

theorem last_write_wins_witness:
  "config_name \<lparr>config_name = ''x'', scope = (1::nat)\<rparr>
     = config_name \<lparr>config_name = ''x'', scope = (2::nat)\<rparr>
   \<and> (\<exists>d. Task_input (Task_init (documented_protect_name []) ''u'' ''t''
          [\<lparr>config_name = ''x'', scope = (1::nat)\<rparr>, \<lparr>config_name = ''x'', scope = 2\<rparr>] ()
          None None None) = Inr d
        \<and> filter (\<lambda>e. fst e = ''x'') d = [(''x'', \<lparr>config_name = ''x'', scope = 2\<rparr>)])"
  using last_write_wins [of "\<lparr>config_name = ''x'', scope = (1::nat)\<rparr>"
      "\<lparr>config_name = ''x'', scope = (2::nat)\<rparr>" "[]" "documented_protect_name []"
      "''u''" "''t''" "[]" "[]" "()" None None None "[]"]
  by simp

subsection \<open>Snapshot and restore\<close>

text \<open>
  C6.  The snapshot of a freshly constructed task, restored into a second, blank
  instance, gives an instance equal to the original: in \<open>id\<close>, \<open>config_name\<close>, inputs,
  outputs and \<open>function\<close>, and in fact in every attribute.
\<close>

theorem snapshot_restore_round_trip:
  "let original = Task_init protect_name uuid4 cfg inp f outp tid parent_id;
       second = Task_setstate blank (Task_getstate original)
   in second = original
    \<and> Task_id second = Task_id original
    \<and> Task_config_name second = Task_config_name original
    \<and> Task_input second = Task_input original
    \<and> Task_output second = Task_output original
    \<and> map_of second ''function'' = Some (PyFun f)
    \<and> map_of original ''function'' = Some (PyFun f)"
proof -
  have "Task_setstate blank (Task_getstate (Task_init protect_name uuid4 cfg inp f outp tid parent_id))
    = Task_init protect_name uuid4 cfg inp f outp tid parent_id"
    by (simp add: Task_setstate_def Task_getstate_def blank_def dict_update_def
        dict_setitem_def Task_init_explicit)
  moreover have "map_of (Task_init protect_name uuid4 cfg inp f outp tid parent_id) ''function''
    = Some (PyFun f)"
    by (simp add: Task_init_explicit)
  ultimately show ?thesis
    by (simp add: Let_def)
qed

text \<open>
  C5, as amended.  Restoring a snapshot overwrites every attribute that the snapshot
  names with the snapshot's value and keeps every attribute of the prior state that the
  snapshot does not name.  When every attribute name of the prior state occurs in the
  snapshot, as with two tasks that both come from the constructor, the attributes after
  the restore are exactly those of the snapshot.
\<close>

theorem restore_is_update:
  assumes "distinct (dict_keys (Task_getstate other))"
  shows "(\<forall>name. map_of (Task_setstate self (Task_getstate other)) name =
            (case map_of (Task_getstate other) name of
               Some v \<Rightarrow> Some v
             | None \<Rightarrow> map_of self name))
       \<and> (set (dict_keys self) \<subseteq> set (dict_keys (Task_getstate other)) \<longrightarrow>
            map_of (Task_setstate self (Task_getstate other)) = map_of (Task_getstate other))"
proof -
  let ?s = "Task_getstate other"
  from assms have "map_of (rev ?s) = map_of ?s"
    by (simp add: dict_keys_def map_of_rev_distinct)
  then have eq: "map_of (Task_setstate self ?s) = map_of self ++ map_of ?s"
    by (simp add: Task_setstate_def map_of_dict_update)
  have "map_of (Task_setstate self ?s) = map_of ?s"
    if "set (dict_keys self) \<subseteq> set (dict_keys ?s)"
  proof
    fix name
    show "map_of (Task_setstate self ?s) name = map_of ?s name"
    proof (cases "map_of ?s name")
      case None
      then have "name \<notin> set (dict_keys ?s)"
        by (simp add: dict_keys_def map_of_eq_None_iff)
      with that have "name \<notin> set (dict_keys self)" by auto
      then have "map_of self name = None"
        by (simp add: dict_keys_def map_of_eq_None_iff)
      with None eq show ?thesis by (simp add: map_add_def)
    next
      case (Some v)
      with eq show ?thesis by (simp add: map_add_def)
    qed
  qed
  with eq show ?thesis
    by (simp add: map_add_def)
qed

text \<open>The theorem at two constructed tasks.\<close>

theorem restore_is_update_witness:
  "distinct (dict_keys (Task_getstate
      (Task_init (documented_protect_name []) ''u2'' ''b'' ([] :: nat DataSource list) ()
        None None None)))
   \<and> set (dict_keys
      (Task_init (documented_protect_name []) ''u1'' ''a'' ([] :: nat DataSource list) ()
        None None None))
     \<subseteq> set (dict_keys (Task_getstate
      (Task_init (documented_protect_name []) ''u2'' ''b'' ([] :: nat DataSource list) ()
        None None None)))
   \<and> map_of (Task_setstate
      (Task_init (documented_protect_name []) ''u1'' ''a'' ([] :: nat DataSource list) ()
        None None None)
      (Task_getstate
        (Task_init (documented_protect_name []) ''u2'' ''b'' ([] :: nat DataSource list) ()
          None None None)))
     = map_of (Task_getstate
      (Task_init (documented_protect_name []) ''u2'' ''b'' ([] :: nat DataSource list) ()
        None None None))"
proof -
  let ?self = "Task_init (documented_protect_name []) ''u1'' ''a'' ([] :: nat DataSource list) ()
        None None None"
  let ?other = "Task_init (documented_protect_name []) ''u2'' ''b'' ([] :: nat DataSource list) ()
        None None None"
  have d: "distinct (dict_keys (Task_getstate ?other))"
    by (simp add: Task_getstate_def dict_keys_def Task_init_explicit)
  have sub: "set (dict_keys ?self) \<subseteq> set (dict_keys (Task_getstate ?other))"
    by (simp add: Task_getstate_def dict_keys_def Task_init_explicit)
  from restore_is_update [OF d, of ?self] sub
  have "map_of (Task_setstate ?self (Task_getstate ?other)) = map_of (Task_getstate ?other)"
    by blast
  with d sub show ?thesis by blast
qed

text \<open>
  Against C5 as stated (no attribute of the prior state survives the restore): a task
  that was given the further attribute \<open>note\<close> keeps it when the snapshot of another
  constructed task is restored into it, although that snapshot has no such attribute;
  and the snapshot of a blank instance, restored into a constructed task, leaves the
  task as it was.
\<close>

theorem restore_keeps_other_fields:
  "map_of (Task_setstate
      (dict_setitem
        (Task_init (documented_protect_name []) ''u1'' ''a'' ([] :: nat DataSource list) ()
          None None None)
        ''note'' (PyStr ''x''))
      (Task_getstate
        (Task_init (documented_protect_name []) ''u2'' ''b'' ([] :: nat DataSource list) ()
          None None None))) ''note'' = Some (PyStr ''x'')
   \<and> map_of (Task_getstate
        (Task_init (documented_protect_name []) ''u2'' ''b'' ([] :: nat DataSource list) ()
          None None None)) ''note'' = None
   \<and> Task_setstate
        (Task_init (documented_protect_name []) ''u1'' ''a'' ([] :: nat DataSource list) ()
          None None None)
        (Task_getstate blank)
      = Task_init (documented_protect_name []) ''u1'' ''a'' ([] :: nat DataSource list) ()
          None None None
   \<and> map_of (Task_init (documented_protect_name []) ''u1'' ''a'' ([] :: nat DataSource list) ()
          None None None) ''id''
      \<noteq> map_of (Task_getstate (blank :: (nat, unit, unit) Task)) ''id''"
proof (intro conjI)
  show "map_of (Task_setstate
      (dict_setitem
        (Task_init (documented_protect_name []) ''u1'' ''a'' ([] :: nat DataSource list) ()
          None None None)
        ''note'' (PyStr ''x''))
      (Task_getstate
        (Task_init (documented_protect_name []) ''u2'' ''b'' ([] :: nat DataSource list) ()
          None None None))) ''note'' = Some (PyStr ''x'')"
    by (simp add: Task_setstate_def Task_getstate_def map_of_dict_update map_of_dict_setitem
        Task_init_explicit map_add_def)
qed (simp_all add: Task_setstate_def Task_getstate_def blank_def dict_update_def
    Task_init_explicit)

subsection \<open>Attribute-style access\<close>

text \<open>
  C4.  For a name that is not an attribute of the task, the access sanitizes the name
  and looks it up in the inputs and then in the outputs.  If the inputs bind the
  sanitized name, their data source is returned; if only the outputs bind it, theirs is
  returned; in both cases nothing is logged.  If neither binds it, the access raises
  \<open>AttributeError\<close> and logs exactly one entry, which gives the name as it was asked for
  and the task's \<open>id\<close>.
\<close>

theorem Task_getattr_resolves:
  assumes "Task_input self = Inr inp" and "Task_output self = Inr outp"
    and "Task_id self = Inr i"
    and "distinct (dict_keys inp)" and "distinct (dict_keys outp)"
  shows "((protect_name n, ds) \<in> set inp \<longrightarrow>
            Task_getattr protect_name self n log = (Inr ds, log))
       \<and> (protect_name n \<notin> set (dict_keys inp) \<and> (protect_name n, ds) \<in> set outp \<longrightarrow>
            Task_getattr protect_name self n log = (Inr ds, log))
       \<and> (protect_name n \<notin> set (dict_keys inp) \<and> protect_name n \<notin> set (dict_keys outp) \<longrightarrow>
            Task_getattr protect_name self n log =
              (Inl AttributeError, log @ [n @ '' is not a data source of task '' @ i]))"
proof (intro conjI impI)
  assume "(protect_name n, ds) \<in> set inp"
  with assms(4) have "map_of inp (protect_name n) = Some ds"
    by (simp add: dict_keys_def)
  with assms(1) show "Task_getattr protect_name self n log = (Inr ds, log)"
    by (simp add: Task_getattr_def)
next
  assume "protect_name n \<notin> set (dict_keys inp) \<and> (protect_name n, ds) \<in> set outp"
  with assms(5) have "map_of inp (protect_name n) = None"
    and "map_of outp (protect_name n) = Some ds"
    by (simp_all add: dict_keys_def map_of_eq_None_iff)
  with assms(1,2) show "Task_getattr protect_name self n log = (Inr ds, log)"
    by (simp add: Task_getattr_def)
next
  assume "protect_name n \<notin> set (dict_keys inp) \<and> protect_name n \<notin> set (dict_keys outp)"
  then have "map_of inp (protect_name n) = None" and "map_of outp (protect_name n) = None"
    by (simp_all add: dict_keys_def map_of_eq_None_iff)
  with assms(1,2,3) show "Task_getattr protect_name self n log =
      (Inl AttributeError, log @ [n @ '' is not a data source of task '' @ i])"
    by (simp add: Task_getattr_def)
qed

text \<open>
  The theorem at a task with the input \<open>my_data\<close> and the output \<open>result\<close>, asked for
  \<open>my data\<close>, for \<open>result\<close> and for \<open>other\<close>.
\<close>

theorem Task_getattr_resolves_witness:
  "Task_getattr (documented_protect_name [])
      (Task_init (documented_protect_name []) ''u'' ''t''
        [\<lparr>config_name = ''my_data'', scope = (1::nat)\<rparr>] ()
        (Some [\<lparr>config_name = ''result'', scope = 2\<rparr>]) (Some ''T1'') None)
      ''my data'' [] = (Inr \<lparr>config_name = ''my_data'', scope = 1\<rparr>, [])
   \<and> Task_getattr (documented_protect_name [])
      (Task_init (documented_protect_name []) ''u'' ''t''
        [\<lparr>config_name = ''my_data'', scope = (1::nat)\<rparr>] ()
        (Some [\<lparr>config_name = ''result'', scope = 2\<rparr>]) (Some ''T1'') None)
      ''result'' [] = (Inr \<lparr>config_name = ''result'', scope = 2\<rparr>, [])
   \<and> Task_getattr (documented_protect_name [])
      (Task_init (documented_protect_name []) ''u'' ''t''
        [\<lparr>config_name = ''my_data'', scope = (1::nat)\<rparr>] ()
        (Some [\<lparr>config_name = ''result'', scope = 2\<rparr>]) (Some ''T1'') None)
      ''other'' [] = (Inl AttributeError, [''other is not a data source of task T1''])"
proof -
  let ?P = "documented_protect_name []"
  let ?a = "\<lparr>config_name = ''my_data'', scope = (1::nat)\<rparr>"
  let ?b = "\<lparr>config_name = ''result'', scope = (2::nat)\<rparr>"
  let ?t = "Task_init ?P ''u'' ''t'' [?a] () (Some [?b]) (Some ''T1'') None"
  have i: "Task_input ?t = Inr [(''my_data'', ?a)]"
    by (simp add: Task_input_init dict_by_config_name_def dict_setitem_def)
  have out: "Task_output ?t = Inr [(''result'', ?b)]"
    by (simp add: Task_output_init dict_by_config_name_def dict_setitem_def)
  have tid: "Task_id ?t = Inr ''T1''"
    by (simp add: Task_id_init)
  have di: "distinct (dict_keys [(''my_data'', ?a)])"
    and dout: "distinct (dict_keys [(''result'', ?b)])"
    by (simp_all add: dict_keys_def)
  have names: "?P ''my data'' = ''my_data''" "?P ''result'' = ''result''" "?P ''other'' = ''other''"
    by (simp_all add: documented_protect_name_def protect_char_def recommended_def
        lowercase_alphanumeric_def)
  note inst = Task_getattr_resolves [OF i out tid di dout, of ?P]
  from inst [of "''my data''" ?a "[]"] names
  have 1: "Task_getattr ?P ?t ''my data'' [] = (Inr ?a, [])"
    by simp
  from inst [of "''result''" ?b "[]"] names
  have 2: "Task_getattr ?P ?t ''result'' [] = (Inr ?b, [])"
    by (simp add: dict_keys_def)
  from inst [of "''other''" ?a "[]"] names
  have 3: "Task_getattr ?P ?t ''other'' [] =
      (Inl AttributeError, [''other is not a data source of task T1''])"
    by (simp add: dict_keys_def)
  from 1 2 3 show ?thesis by simp
qed

subsection \<open>Identity\<close>

text \<open>
  C1.  Two tasks compare equal, as keys of a set or a mapping, if and only if their
  \<open>id\<close> strings are equal.  The class hashes a task by its \<open>id\<close> and leaves \<open>==\<close> to the
  comparison of objects: the theorem evaluates two instances constructed with the same
  explicit \<open>id\<close> and different names.  Their identifiers and their hashes are equal, and
  they compare unequal and are two different keys.
\<close>

theorem equal_ids_unequal_tasks:
  "let a = (0, Task_init protect_name u1 ''first'' inp f outp (Some ''T1'') None);
       b = (1, Task_init protect_name u2 ''second'' inp f outp (Some ''T1'') None)
   in Task_id (snd a) = Inr ''T1'' \<and> Task_id (snd b) = Inr ''T1''
    \<and> Task_hash hash (snd a) = Task_hash hash (snd b)
    \<and> Task_eq a b = False
    \<and> same_key hash a b = Inr False
    \<and> same_key hash a a = Inr True"
  by (simp add: Let_def Task_id_init Task_hash_def Task_eq_def same_key_def)

subsection \<open>Reachable data sources\<close>














end
